theory Spec2Isabelle
  imports Main
begin

section \<open>Data coming from the document service\<close>

text \<open>
  The two pages (the list view \<^verbatim>\<open>part_000\<close> and the single-post view
  \<^verbatim>\<open>part_001\<close>) read three kinds of objects returned by the document
  service: rich-text segments, blocks and pages. Each is a tagged union on the
  TypeScript side; here each is a datatype, and a field read such as
  \<^verbatim>\<open>block.quote\<close> is a function into \<open>option\<close> that is \<open>None\<close> when the
  object carries no such key (JavaScript's \<^verbatim>\<open>undefined\<close>).

  A rich-text segment always has its \<^verbatim>\<open>plain_text\<close>, and the body of a
  paragraph, heading, quote or code block always has its \<^verbatim>\<open>rich_text\<close>
  array (a code block also its \<^verbatim>\<open>language\<close>): these are the fields the
  pages read, and the other fields of the objects are left out.
\<close>

record rich_text_item =
  plain_text :: string

record text_body =
  rich_text :: "rich_text_item list"

record code_body = text_body +
  language :: string

text \<open>
  A block of the children listing. \<open>PartialBlock\<close> is the partial response, which
  has no \<^verbatim>\<open>type\<close> key. A full block carries its type tag and, under the key
  named like the tag, its body. \<open>OtherBlock t\<close> is a full block with any other tag
  \<open>t\<close> (\<^verbatim>\<open>heading_1\<close>, \<^verbatim>\<open>image\<close>, ...); its body is never read.
\<close>

datatype block =
    PartialBlock
  | ParagraphBlock text_body
  | Heading2Block text_body
  | Heading3Block text_body
  | QuoteBlock text_body
  | CodeBlock code_body
  | OtherBlock string

text \<open>\<^verbatim>\<open>"type" in block\<close> and \<^verbatim>\<open>block.type\<close>.\<close>

fun block_type :: "block \<Rightarrow> string option" where
  "block_type PartialBlock = None"
| "block_type (ParagraphBlock _) = Some ''paragraph''"
| "block_type (Heading2Block _) = Some ''heading_2''"
| "block_type (Heading3Block _) = Some ''heading_3''"
| "block_type (QuoteBlock _) = Some ''quote''"
| "block_type (CodeBlock _) = Some ''code''"
| "block_type (OtherBlock t) = Some t"

text \<open>
  The field reads \<^verbatim>\<open>block.paragraph\<close>, \<^verbatim>\<open>block.heading_2\<close>,
  \<^verbatim>\<open>block.heading_3\<close>, \<^verbatim>\<open>block.quote\<close> and \<^verbatim>\<open>block.code\<close>.
\<close>

fun paragraph_of :: "block \<Rightarrow> text_body option" where
  "paragraph_of (ParagraphBlock body) = Some body"
| "paragraph_of _ = None"

fun heading_2_of :: "block \<Rightarrow> text_body option" where
  "heading_2_of (Heading2Block body) = Some body"
| "heading_2_of _ = None"

fun heading_3_of :: "block \<Rightarrow> text_body option" where
  "heading_3_of (Heading3Block body) = Some body"
| "heading_3_of _ = None"

fun quote_of :: "block \<Rightarrow> text_body option" where
  "quote_of (QuoteBlock body) = Some body"
| "quote_of _ = None"

fun code_of :: "block \<Rightarrow> code_body option" where
  "code_of (CodeBlock body) = Some body"
| "code_of _ = None"

text \<open>
  A block shaped as the service sends it: the catch-all constructor does not
  stand for one of the five tags that have a constructor of their own.
\<close>

definition switch_tags :: "string list" where
  "switch_tags = [''paragraph'', ''heading_2'', ''heading_3'', ''quote'', ''code'']"

fun api_shaped :: "block \<Rightarrow> bool" where
  "api_shaped (OtherBlock t) = (t \<notin> set switch_tags)"
| "api_shaped _ = True"

text \<open>
  A property of a page's property bag: a title, a rich text, or a property of any
  other type (checkbox, date, ...), with \<^verbatim>\<open>property.type\<close> and the reads
  \<^verbatim>\<open>property.title\<close> and \<^verbatim>\<open>property.rich_text\<close>.
\<close>

datatype property =
    TitleProperty "rich_text_item list"
  | RichTextProperty "rich_text_item list"
  | OtherProperty string

fun property_type :: "property \<Rightarrow> string" where
  "property_type (TitleProperty _) = ''title''"
| "property_type (RichTextProperty _) = ''rich_text''"
| "property_type (OtherProperty t) = t"

fun title_of :: "property \<Rightarrow> rich_text_item list option" where
  "title_of (TitleProperty segs) = Some segs"
| "title_of _ = None"

fun rich_text_of :: "property \<Rightarrow> rich_text_item list option" where
  "rich_text_of (RichTextProperty segs) = Some segs"
| "rich_text_of _ = None"

text \<open>
  A result of the database query: a partial response (an id and no
  \<^verbatim>\<open>properties\<close> key) or a full page.
\<close>

record page_body =
  id_page :: string
  properties :: "string \<rightharpoonup> property"
  created_time :: string
  last_edited_time :: string

datatype page =
    PartialPage string
  | FullPage page_body

fun page_id :: "page \<Rightarrow> string" where
  "page_id (PartialPage i) = i"
| "page_id (FullPage body) = id_page body"

section \<open>The pages' own types\<close>

text \<open>
  \<^verbatim>\<open>Content\<close> is a union of two shapes: a type among paragraph, quote,
  heading_2 and heading_3 with a text, or the type code with a text and a language.
  \<^verbatim>\<open>null\<close> is \<open>None\<close>.
\<close>

datatype text_type = Paragraph | Quote | Heading_2 | Heading_3

fun text_type_name :: "text_type \<Rightarrow> string" where
  "text_type_name Paragraph = ''paragraph''"
| "text_type_name Quote = ''quote''"
| "text_type_name Heading_2 = ''heading_2''"
| "text_type_name Heading_3 = ''heading_3''"

datatype content =
    TextContent text_type "string option"
  | CodeContent "string option" "string option"

fun content_type :: "content \<Rightarrow> string" where
  "content_type (TextContent ty _) = text_type_name ty"
| "content_type (CodeContent _ _) = ''code''"

fun content_text :: "content \<Rightarrow> string option" where
  "content_text (TextContent _ t) = t"
| "content_text (CodeContent t _) = t"

fun content_language :: "content \<Rightarrow> string option" where
  "content_language (TextContent _ _) = None"
| "content_language (CodeContent _ l) = l"

record post =
  id_post :: string
  title :: "string option"
  slug :: "string option"
  createdTs :: "string option"
  lastEditedTs :: "string option"
  contents :: "content list"

section \<open>Exceptions and the client\<close>

text \<open>
  Three things can throw: reading a field of \<^verbatim>\<open>undefined\<close> (a
  \<open>TypeError\<close>), a request to the document service that is rejected, and
  reading an identifier that nothing binds (a \<open>ReferenceError\<close>). A
  computation that can throw returns \<open>error + 'a\<close>, \<open>Inl\<close> being the exception.
\<close>

datatype error = TypeError | APIResponseError | ReferenceError

text \<open>
  The client, as far as the pages use it: the answer to the one database query
  they make (filter and sorting are fixed in the source), and the children
  listing for a block id. The single-post view passes
  \<^verbatim>\<open>database.results[0]?.id\<close>, which may be \<^verbatim>\<open>undefined\<close>: the id is
  optional.
\<close>

record notion =
  databases_query :: "error + page list"
  blocks_children_list :: "string option \<Rightarrow> error + block list"

section \<open>Field extractors\<close>

text \<open>\<^verbatim>\<open>segments[0]?.plain_text ?? null\<close>.\<close>

fun first_plain_text :: "rich_text_item list \<Rightarrow> string option" where
  "first_plain_text [] = None"
| "first_plain_text (seg # _) = Some (plain_text seg)"

text \<open>
  \<^verbatim>\<open>getTitle\<close> and \<^verbatim>\<open>getSlug\<close> of the list view. The single-post view
  has the same two statements inline in \<^verbatim>\<open>getStaticProps\<close>.
\<close>

definition getTitle :: "page_body \<Rightarrow> error + string option" where
  "getTitle page =
     (case properties page ''Name'' of
        None \<Rightarrow> Inr None
      | Some p \<Rightarrow>
          if property_type p = ''title'' then
            (case title_of p of
               None \<Rightarrow> Inl TypeError
             | Some segs \<Rightarrow> Inr (first_plain_text segs))
          else Inr None)"

definition getSlug :: "page_body \<Rightarrow> error + string option" where
  "getSlug page =
     (case properties page ''Slug'' of
        None \<Rightarrow> Inr None
      | Some p \<Rightarrow>
          if property_type p = ''rich_text'' then
            (case rich_text_of p of
               None \<Rightarrow> Inl TypeError
             | Some segs \<Rightarrow> Inr (first_plain_text segs))
          else Inr None)"

section \<open>The loop over the blocks\<close>

text \<open>
  Both pages fill a local array \<^verbatim>\<open>contents\<close> (here \<open>cs\<close>) from
  inside a \<^verbatim>\<open>forEach\<close> callback. A statement of the callback takes the array and
  returns it updated, together with the exception it threw, if any: the array is
  kept at a throw, so that what was pushed before is still visible.
\<close>

type_synonym 's stmt = "'s \<Rightarrow> error option \<times> 's"

text \<open>Statement after statement: the second runs only if the first did not throw.\<close>

definition seq :: "'s stmt \<Rightarrow> 's stmt \<Rightarrow> 's stmt" where
  "seq f g s = (case f s of (None, s') \<Rightarrow> g s' | (Some e, s') \<Rightarrow> (Some e, s'))"

text \<open>\<^verbatim>\<open>xs.forEach(f)\<close>: an exception of the callback ends the loop.\<close>

fun forEach :: "('a \<Rightarrow> 's stmt) \<Rightarrow> 'a list \<Rightarrow> 's stmt" where
  "forEach f [] s = (None, s)"
| "forEach f (x # xs) s =
     (case f x s of (None, s') \<Rightarrow> forEach f xs s' | (Some e, s') \<Rightarrow> (Some e, s'))"

text \<open>
  The five \<^verbatim>\<open>contents.push({...})\<close> statements, the same in both pages.
  Each reads the body under one key of the block and then \<^verbatim>\<open>rich_text\<close> of
  it: on a block without that key the read throws.
\<close>

definition push_paragraph :: "block \<Rightarrow> content list stmt" where
  "push_paragraph block cs =
     (case paragraph_of block of
        None \<Rightarrow> (Some TypeError, cs)
      | Some body \<Rightarrow>
          (None, cs @ [TextContent Paragraph (first_plain_text (rich_text body))]))"

definition push_heading_2 :: "block \<Rightarrow> content list stmt" where
  "push_heading_2 block cs =
     (case heading_2_of block of
        None \<Rightarrow> (Some TypeError, cs)
      | Some body \<Rightarrow>
          (None, cs @ [TextContent Heading_2 (first_plain_text (rich_text body))]))"

definition push_heading_3 :: "block \<Rightarrow> content list stmt" where
  "push_heading_3 block cs =
     (case heading_3_of block of
        None \<Rightarrow> (Some TypeError, cs)
      | Some body \<Rightarrow>
          (None, cs @ [TextContent Heading_3 (first_plain_text (rich_text body))]))"

definition push_quote :: "block \<Rightarrow> content list stmt" where
  "push_quote block cs =
     (case quote_of block of
        None \<Rightarrow> (Some TypeError, cs)
      | Some body \<Rightarrow>
          (None, cs @ [TextContent Quote (first_plain_text (rich_text body))]))"

definition push_code :: "block \<Rightarrow> content list stmt" where
  "push_code block cs =
     (case code_of block of
        None \<Rightarrow> (Some TypeError, cs)
      | Some body \<Rightarrow>
          (None, cs @
             [CodeContent (first_plain_text (rich_text body)) (Some (language body))]))"

text \<open>What a function that ran the loop returns: the array, or the exception.\<close>

fun returned :: "error option \<times> 's \<Rightarrow> error + 's" where
  "returned (None, s) = Inr s"
| "returned (Some e, s) = Inl e"

section \<open>The list view\<close>

text \<open>
  The callback of \<^verbatim>\<open>getPostContents\<close>. Only the paragraph case ends with
  \<^verbatim>\<open>break\<close>: the heading_2 case runs on into the quote and code cases, the
  quote case into the code case. There is no heading_3 case.
\<close>

definition list_callback :: "block \<Rightarrow> content list stmt" where
  "list_callback block =
     (case block_type block of
        None \<Rightarrow> (\<lambda>cs. (None, cs))
      | Some t \<Rightarrow>
          if t = ''paragraph'' then push_paragraph block
          else if t = ''heading_2'' then
            seq (push_heading_2 block) (seq (push_quote block) (push_code block))
          else if t = ''quote'' then seq (push_quote block) (push_code block)
          else if t = ''code'' then push_code block
          else (\<lambda>cs. (None, cs)))"

text \<open>The loop of \<^verbatim>\<open>getPostContents\<close>, from the empty array.\<close>

definition list_flatten :: "block list \<Rightarrow> error + content list" where
  "list_flatten blocks = returned (forEach list_callback blocks [])"

definition getPostContents :: "notion \<Rightarrow> post \<Rightarrow> error + content list" where
  "getPostContents client p =
     (case blocks_children_list client (Some (id_post p)) of
        Inl e \<Rightarrow> Inl e
      | Inr blocks \<Rightarrow> list_flatten blocks)"

text \<open>
  \<^verbatim>\<open>getPosts\<close>: one post, with no contents yet, for every query result that
  has a \<^verbatim>\<open>properties\<close> key.
\<close>

definition getPosts_page :: "page \<Rightarrow> post list stmt" where
  "getPosts_page pg ps =
     (case pg of
        PartialPage _ \<Rightarrow> (None, ps)
      | FullPage body \<Rightarrow>
          (case getTitle body of
             Inl e \<Rightarrow> (Some e, ps)
           | Inr t \<Rightarrow>
               (case getSlug body of
                  Inl e \<Rightarrow> (Some e, ps)
                | Inr s \<Rightarrow>
                    (None, ps @
                       [\<lparr>id_post = id_page body, title = t, slug = s,
                         createdTs = Some (created_time body),
                         lastEditedTs = Some (last_edited_time body),
                         contents = []\<rparr>]))))"

definition getPosts :: "notion \<Rightarrow> error + post list" where
  "getPosts client =
     (case databases_query client of
        Inl e \<Rightarrow> Inl e
      | Inr results \<Rightarrow> returned (forEach getPosts_page results []))"

text \<open>
  \<^verbatim>\<open>Promise.all\<close> over requests that have each settled: the values in the
  order of the promises, or a rejection if one of them rejected. (With several
  rejections the language hands on the one that happened first in time; the model
  takes the first in the list. No statement below depends on which.)
\<close>

fun promise_all :: "(error + 'a) list \<Rightarrow> error + 'a list" where
  "promise_all [] = Inr []"
| "promise_all (Inl e # _) = Inl e"
| "promise_all (Inr v # ps) =
     (case promise_all ps of Inl e \<Rightarrow> Inl e | Inr vs \<Rightarrow> Inr (v # vs))"

text \<open>
  \<^verbatim>\<open>posts.forEach((post, index) => { post.contents = contentsList[index]; })\<close>,
  the index counted up from \<open>index\<close>. The read \<^verbatim>\<open>contentsList[index]\<close> is
  within range in the one place that calls this (lemma \<open>promise_all_length\<close>).
\<close>

fun assign_contents :: "post list \<Rightarrow> nat \<Rightarrow> content list list \<Rightarrow> post list" where
  "assign_contents [] index contentsList = []"
| "assign_contents (p # ps) index contentsList =
     p\<lparr>contents := contentsList ! index\<rparr> # assign_contents ps (Suc index) contentsList"

record list_props =
  posts :: "post list option"
  revalidate :: nat

definition getStaticProps_list :: "notion \<Rightarrow> error + list_props" where
  "getStaticProps_list client =
     (case getPosts client of
        Inl e \<Rightarrow> Inl e
      | Inr ps \<Rightarrow>
          (case promise_all (map (getPostContents client) ps) of
             Inl e \<Rightarrow> Inl e
           | Inr contentsList \<Rightarrow>
               Inr \<lparr>posts = Some (assign_contents ps 0 contentsList), revalidate = 60\<rparr>))"

section \<open>The single-post view\<close>

text \<open>
  The callback of the loop in \<^verbatim>\<open>getStaticProps\<close>: every case but the last
  ends with \<^verbatim>\<open>break\<close>, and heading_3 has its case.
\<close>

definition single_callback :: "block \<Rightarrow> content list stmt" where
  "single_callback block =
     (case block_type block of
        None \<Rightarrow> (\<lambda>cs. (None, cs))
      | Some t \<Rightarrow>
          if t = ''paragraph'' then push_paragraph block
          else if t = ''heading_2'' then push_heading_2 block
          else if t = ''heading_3'' then push_heading_3 block
          else if t = ''quote'' then push_quote block
          else if t = ''code'' then push_code block
          else (\<lambda>cs. (None, cs)))"

definition single_flatten :: "block list \<Rightarrow> error + content list" where
  "single_flatten blocks = returned (forEach single_callback blocks [])"

record single_props =
  post_prop :: "post option"

text \<open>
  \<^verbatim>\<open>getStaticProps\<close> of the single-post view. The children listing is
  requested for the id of the first result before the result is looked at.
\<close>

definition first_result :: "page list \<Rightarrow> page option" where
  "first_result results = (case results of [] \<Rightarrow> None | pg # _ \<Rightarrow> Some pg)"

definition getStaticProps_single :: "notion \<Rightarrow> error + single_props" where
  "getStaticProps_single client =
     (case databases_query client of
        Inl e \<Rightarrow> Inl e
      | Inr results \<Rightarrow>
          (case blocks_children_list client (map_option page_id (first_result results)) of
             Inl e \<Rightarrow> Inl e
           | Inr blocks \<Rightarrow>
               (case first_result results of
                  None \<Rightarrow> Inr \<lparr>post_prop = None\<rparr>
                | Some (PartialPage i) \<Rightarrow>
                    Inr \<lparr>post_prop = Some \<lparr>id_post = i, title = None, slug = None,
                      createdTs = None, lastEditedTs = None, contents = []\<rparr>\<rparr>
                | Some (FullPage body) \<Rightarrow>
                    (case getTitle body of
                       Inl e \<Rightarrow> Inl e
                     | Inr t \<Rightarrow>
                         (case getSlug body of
                            Inl e \<Rightarrow> Inl e
                          | Inr s \<Rightarrow>
                              (case single_flatten blocks of
                                 Inl e \<Rightarrow> Inl e
                               | Inr cs \<Rightarrow>
                                   Inr \<lparr>post_prop = Some \<lparr>id_post = id_page body,
                                     title = t, slug = s,
                                     createdTs = Some (created_time body),
                                     lastEditedTs = Some (last_edited_time body),
                                     contents = cs\<rparr>\<rparr>))))))"

section \<open>The components\<close>

text \<open>
  What a component returns: elements with a tag, a class and children, text, and
  the fragment \<^verbatim>\<open><>...</>\<close>. The class names come from a style sheet
  module; \<^verbatim>\<open>styles.title\<close> is written \<open>''title''\<close>. A child that is
  \<^verbatim>\<open>null\<close> is no child.
\<close>

datatype markup =
    Element string string "markup list"
  | TextNode string
  | Fragment "markup list"

text \<open>
  \<^verbatim>\<open>Home\<close> of the single-post view: nothing for a null post, and else the
  title in a heading.
\<close>

definition Home_single :: "post option \<Rightarrow> error + markup option" where
  "Home_single p =
     (case p of
        None \<Rightarrow> Inr None
      | Some q \<Rightarrow>
          Inr (Some (Fragment
            [Element ''div'' ''wrapper''
               [Element ''div'' ''post''
                  [Element ''h1'' ''title''
                     (case title q of None \<Rightarrow> [] | Some t \<Rightarrow> [TextNode t])]]])))"

text \<open>
  \<^verbatim>\<open>Home\<close> of the list view. Its parameter is \<^verbatim>\<open>{ posts }\<close>, and
  when \<^verbatim>\<open>posts\<close> is not null its body goes on to read
  \<^verbatim>\<open>post?.title\<close>, \<^verbatim>\<open>post.createdTs\<close> and
  \<^verbatim>\<open>post.contents\<close>. The module binds no \<^verbatim>\<open>post\<close>: the first of
  these reads throws, after the class names of the three enclosing elements were
  read and before any element is made. An empty array is not null.
\<close>

definition Home_list :: "post list option \<Rightarrow> error + markup option" where
  "Home_list ps =
     (case ps of
        None \<Rightarrow> Inr None
      | Some _ \<Rightarrow> Inl ReferenceError)"

section \<open>What the text of the specification describes\<close>

text \<open>
  The flattener as the specification words it: every block of a recognised type
  (paragraph, heading_2, heading_3, quote, code) gives exactly one content record
  of the same type, carrying the plain text of the block's first rich-text run
  (and, for code, the language); every other block gives none.
\<close>

fun content_of :: "block \<Rightarrow> content option" where
  "content_of (ParagraphBlock body) =
     Some (TextContent Paragraph (first_plain_text (rich_text body)))"
| "content_of (Heading2Block body) =
     Some (TextContent Heading_2 (first_plain_text (rich_text body)))"
| "content_of (Heading3Block body) =
     Some (TextContent Heading_3 (first_plain_text (rich_text body)))"
| "content_of (QuoteBlock body) =
     Some (TextContent Quote (first_plain_text (rich_text body)))"
| "content_of (CodeBlock body) =
     Some (CodeContent (first_plain_text (rich_text body)) (Some (language body)))"
| "content_of PartialBlock = None"
| "content_of (OtherBlock _) = None"

text \<open>
  Two notions that describe the list view's callback: the blocks whose case has
  no \<^verbatim>\<open>break\<close> before a case that reads another key, and the content the
  callback produces for the remaining blocks.
\<close>

fun falls_through :: "block \<Rightarrow> bool" where
  "falls_through (Heading2Block _) = True"
| "falls_through (QuoteBlock _) = True"
| "falls_through _ = False"

fun list_content_of :: "block \<Rightarrow> content option" where
  "list_content_of (ParagraphBlock body) =
     Some (TextContent Paragraph (first_plain_text (rich_text body)))"
| "list_content_of (CodeBlock body) =
     Some (CodeContent (first_plain_text (rich_text body)) (Some (language body)))"
| "list_content_of _ = None"

text \<open>
  A property from which no text can be taken: it is absent, it has another type
  than the one asked for, or its list of segments is empty.
\<close>

fun title_missing :: "property option \<Rightarrow> bool" where
  "title_missing None = True"
| "title_missing (Some (TitleProperty segs)) = (segs = [])"
| "title_missing (Some (RichTextProperty _)) = True"
| "title_missing (Some (OtherProperty t)) = (t \<noteq> ''title'')"

fun slug_missing :: "property option \<Rightarrow> bool" where
  "slug_missing None = True"
| "slug_missing (Some (RichTextProperty segs)) = (segs = [])"
| "slug_missing (Some (TitleProperty _)) = True"
| "slug_missing (Some (OtherProperty t)) = (t \<noteq> ''rich_text'')"

section \<open>Sample data\<close>

definition sample_titled :: page_body where
  "sample_titled =
     \<lparr>id_page = ''p1'',
      properties =
        [''Name'' \<mapsto> TitleProperty [\<lparr>plain_text = ''Hello''\<rparr>, \<lparr>plain_text = '' world''\<rparr>],
         ''Slug'' \<mapsto> RichTextProperty [\<lparr>plain_text = ''hello''\<rparr>],
         ''document'' \<mapsto> OtherProperty ''checkbox''],
      created_time = ''2023-01-01T00:00:00.000Z'',
      last_edited_time = ''2023-01-02T00:00:00.000Z''\<rparr>"

definition sample_untitled :: page_body where
  "sample_untitled =
     \<lparr>id_page = ''p2'',
      properties =
        [''Name'' \<mapsto> TitleProperty [],
         ''Slug'' \<mapsto> OtherProperty ''checkbox''],
      created_time = ''2023-02-01T00:00:00.000Z'',
      last_edited_time = ''2023-02-02T00:00:00.000Z''\<rparr>"

definition sample_blocks_1 :: "block list" where
  "sample_blocks_1 =
     [ParagraphBlock \<lparr>rich_text = [\<lparr>plain_text = ''Intro''\<rparr>]\<rparr>,
      OtherBlock ''image'',
      CodeBlock \<lparr>rich_text = [\<lparr>plain_text = ''x = 1''\<rparr>], language = ''python''\<rparr>]"

definition sample_blocks_2 :: "block list" where
  "sample_blocks_2 =
     [Heading3Block \<lparr>rich_text = [\<lparr>plain_text = ''Details''\<rparr>]\<rparr>,
      PartialBlock,
      ParagraphBlock \<lparr>rich_text = []\<rparr>]"

definition sample_blocks_3 :: "block list" where
  "sample_blocks_3 =
     [Heading2Block \<lparr>rich_text = [\<lparr>plain_text = ''Chapter''\<rparr>]\<rparr>,
      QuoteBlock \<lparr>rich_text = [\<lparr>plain_text = ''So it goes''\<rparr>, \<lparr>plain_text = ''.''\<rparr>]\<rparr>,
      OtherBlock ''divider'',
      CodeBlock \<lparr>rich_text = [], language = ''typescript''\<rparr>]"

definition sample_client :: notion where
  "sample_client =
     \<lparr>databases_query = Inr [FullPage sample_titled, PartialPage ''p0'', FullPage sample_untitled],
      blocks_children_list =
        (\<lambda>i. if i = Some ''p1'' then Inr sample_blocks_1
             else if i = Some ''p2'' then Inr sample_blocks_2
             else Inl APIResponseError)\<rparr>"

definition sample_client_untitled :: notion where
  "sample_client_untitled =
     \<lparr>databases_query = Inr [FullPage sample_untitled],
      blocks_children_list =
        (\<lambda>i. if i = Some ''p2'' then Inr sample_blocks_3 else Inl APIResponseError)\<rparr>"

text \<open>
  A service whose one page is the untitled one, with a listing that holds no
  heading_2 and no quote block.
\<close>

definition sample_client_plain :: notion where
  "sample_client_plain =
     \<lparr>databases_query = Inr [FullPage sample_untitled],
      blocks_children_list =
        (\<lambda>i. if i = Some ''p2'' then Inr sample_blocks_2 else Inl APIResponseError)\<rparr>"

text \<open>
  A service that answers the query with no result and rejects a children listing
  asked for without a block id.
\<close>

definition sample_client_strict :: notion where
  "sample_client_strict =
     \<lparr>databases_query = Inr [],
      blocks_children_list =
        (\<lambda>i. case i of None \<Rightarrow> Inl APIResponseError | Some _ \<Rightarrow> Inr [])\<rparr>"

section \<open>The callbacks, block by block\<close>

lemmas push_defs =
  push_paragraph_def push_heading_2_def push_heading_3_def push_quote_def push_code_def

text \<open>
  The single-post view: a block shaped as the service sends it adds the content
  that the specification describes, or nothing, and never throws.
\<close>

lemma single_callback_content_of:
  "api_shaped b \<Longrightarrow>
   single_callback b cs = (None, cs @ (case content_of b of None \<Rightarrow> [] | Some c \<Rightarrow> [c]))"
  by (cases b) (simp_all add: single_callback_def push_defs switch_tags_def)

lemma content_of_type: "content_of b = Some c \<Longrightarrow> block_type b = Some (content_type c)"
  by (cases b) auto

lemma content_of_unrecognised:
  "api_shaped b \<Longrightarrow> content_of b = None \<longleftrightarrow> block_type b \<notin> Some ` set switch_tags"
  by (cases b) (auto simp: switch_tags_def)

text \<open>
  The list view. On a heading_2 block the callback pushes the heading and then,
  in the quote case it runs on into, reads \<^verbatim>\<open>block.quote.rich_text\<close>: the
  block has no such key and the read throws. A quote block likewise throws in the
  code case. Each time one entry has been pushed.
\<close>

lemma list_callback_heading_2:
  "list_callback (Heading2Block body) cs =
     (Some TypeError, cs @ [TextContent Heading_2 (first_plain_text (rich_text body))])"
  by (simp add: list_callback_def seq_def push_defs)

lemma list_callback_quote:
  "list_callback (QuoteBlock body) cs =
     (Some TypeError, cs @ [TextContent Quote (first_plain_text (rich_text body))])"
  by (simp add: list_callback_def seq_def push_defs)

lemma list_callback_falls_through:
  "falls_through b \<Longrightarrow> fst (list_callback b cs) = Some TypeError"
  by (cases b) (simp_all add: list_callback_heading_2 list_callback_quote)

lemma list_callback_no_fall:
  "api_shaped b \<Longrightarrow> \<not> falls_through b \<Longrightarrow>
   list_callback b cs =
     (None, cs @ (case list_content_of b of None \<Rightarrow> [] | Some c \<Rightarrow> [c]))"
  by (cases b) (simp_all add: list_callback_def push_defs switch_tags_def)

lemma list_callback_bound: "length (snd (list_callback b cs)) \<le> Suc (length cs)"
  by (cases b) (simp_all add: list_callback_def seq_def push_defs)

section \<open>The loops\<close>

lemma forEach_single_callback:
  "list_all api_shaped bs \<Longrightarrow>
   forEach single_callback bs cs = (None, cs @ List.map_filter content_of bs)"
proof (induction bs arbitrary: cs)
  case Nil
  show ?case by simp
next
  case (Cons b bs)
  then show ?case
    by (cases "content_of b") (simp_all add: single_callback_content_of)
qed

text \<open>
  The single-post view keeps the order of the blocks, drops the unrecognised ones
  and maps every other block to one content record.
\<close>

lemma single_flatten_order:
  "list_all api_shaped bs \<Longrightarrow> single_flatten bs = Inr (List.map_filter content_of bs)"
  by (simp add: single_flatten_def forEach_single_callback)

lemma forEach_list_callback_ok:
  "list_all api_shaped bs \<Longrightarrow> \<not> list_ex falls_through bs \<Longrightarrow>
   forEach list_callback bs cs = (None, cs @ List.map_filter list_content_of bs)"
proof (induction bs arbitrary: cs)
  case Nil
  show ?case by simp
next
  case (Cons b bs)
  then show ?case
    by (cases "list_content_of b") (simp_all add: list_callback_no_fall)
qed

lemma forEach_list_callback_throws:
  "list_all api_shaped bs \<Longrightarrow> list_ex falls_through bs \<Longrightarrow>
   fst (forEach list_callback bs cs) = Some TypeError"
proof (induction bs arbitrary: cs)
  case Nil
  then show ?case by simp
next
  case (Cons b bs)
  show ?case
  proof (cases "falls_through b")
    case True
    then have "fst (list_callback b cs) = Some TypeError"
      by (rule list_callback_falls_through)
    then show ?thesis
      by (cases "list_callback b cs") simp
  next
    case False
    with Cons.prems have "list_callback b cs =
        (None, cs @ (case list_content_of b of None \<Rightarrow> [] | Some c \<Rightarrow> [c]))"
      by (simp add: list_callback_no_fall)
    moreover from False Cons.prems have "list_all api_shaped bs" "list_ex falls_through bs"
      by simp_all
    ultimately show ?thesis
      using Cons.IH by simp
  qed
qed

text \<open>
  The list view, for every listing: it throws exactly when the listing holds a
  heading_2 or a quote block, and otherwise returns the paragraphs and the code
  blocks in their order.
\<close>

lemma list_flatten_throws:
  "list_all api_shaped bs \<Longrightarrow> list_ex falls_through bs \<Longrightarrow> list_flatten bs = Inl TypeError"
  using forEach_list_callback_throws [of bs "[]"]
  by (cases "forEach list_callback bs []") (simp add: list_flatten_def)

lemma list_flatten_ok:
  "list_all api_shaped bs \<Longrightarrow> \<not> list_ex falls_through bs \<Longrightarrow>
   list_flatten bs = Inr (List.map_filter list_content_of bs)"
  by (simp add: list_flatten_def forEach_list_callback_ok)

lemma forEach_list_code:
  "forEach list_callback (map CodeBlock bodies) cs =
     (None, cs @ map (\<lambda>body. CodeContent (first_plain_text (rich_text body))
        (Some (language body))) bodies)"
  by (induction bodies arbitrary: cs) (simp_all add: list_callback_def push_defs)

lemma forEach_single_code:
  "forEach single_callback (map CodeBlock bodies) cs =
     (None, cs @ map (\<lambda>body. CodeContent (first_plain_text (rich_text body))
        (Some (language body))) bodies)"
  by (induction bodies arbitrary: cs) (simp_all add: single_callback_def push_defs)

section \<open>The flattener: order, types, exceptions\<close>

text \<open>
  C1. The content sequence is the block sequence, in order, without the blocks of
  an unrecognised type and with one record per remaining block. The single-post
  view does this (lemma \<open>single_flatten_order\<close>). The list view does not: on the
  listing heading_2, quote, divider, code it returns no sequence at all but throws
  a \<open>TypeError\<close>, where the single-post view returns the three records.
\<close>

theorem list_flatten_loses_order:
  "list_flatten sample_blocks_3 = Inl TypeError \<and>
   single_flatten sample_blocks_3 =
     Inr [TextContent Heading_2 (Some ''Chapter''),
          TextContent Quote (Some ''So it goes''),
          CodeContent None (Some ''typescript'')]"
  by (simp add: sample_blocks_3_def list_flatten_def single_flatten_def list_callback_def
      single_callback_def seq_def push_defs)

text \<open>
  C2, as stated: some block, such as a heading_2 or a quote block, makes the list
  view's callback push more than one entry. It does not: no block and no array
  make the callback leave more than one new entry, and the heading_2 and the quote
  block each leave exactly one and throw.
\<close>

theorem list_callback_never_pushes_twice:
  "\<not> (\<exists>b cs. Suc (length cs) < length (snd (list_callback b cs))) \<and>
   list_callback (Heading2Block \<lparr>rich_text = [\<lparr>plain_text = ''Chapter''\<rparr>]\<rparr>) [] =
     (Some TypeError, [TextContent Heading_2 (Some ''Chapter'')]) \<and>
   list_callback (QuoteBlock \<lparr>rich_text = [\<lparr>plain_text = ''So it goes''\<rparr>]\<rparr>) [] =
     (Some TypeError, [TextContent Quote (Some ''So it goes'')])"
proof -
  have "\<not> (\<exists>b cs. Suc (length cs) < length (snd (list_callback b cs)))"
    using list_callback_bound by (simp add: not_less)
  then show ?thesis
    by (simp add: list_callback_heading_2 list_callback_quote)
qed

text \<open>
  C2, amended: the heading_2 and quote cases of the list view's switch have no
  \<^verbatim>\<open>break\<close>, so control runs on into the next case; a heading_2 or quote
  block has its own entry pushed, and then the next case's read of a key the block
  does not have throws a \<open>TypeError\<close>, whatever the array held before.
\<close>

theorem list_callback_fallthrough_throws:
  "list_callback (Heading2Block body) cs =
     (Some TypeError, cs @ [TextContent Heading_2 (first_plain_text (rich_text body))]) \<and>
   list_callback (QuoteBlock body) cs =
     (Some TypeError, cs @ [TextContent Quote (first_plain_text (rich_text body))]) \<and>
   list_flatten (Heading2Block body # bs) = Inl TypeError \<and>
   list_flatten (QuoteBlock body # bs) = Inl TypeError"
  by (simp add: list_callback_heading_2 list_callback_quote list_flatten_def)

text \<open>
  C3. Both flatteners give a block of a recognised type the content of that type.
  The single-post view does (lemmas \<open>single_callback_content_of\<close> and
  \<open>content_of_type\<close>). The list view has no heading_3 case: a heading_3 block is
  dropped there, where the single-post view gives the heading_3 content.
\<close>

theorem list_flatten_drops_heading_3:
  "list_flatten [Heading3Block \<lparr>rich_text = [\<lparr>plain_text = ''Details''\<rparr>]\<rparr>] = Inr [] \<and>
   single_flatten [Heading3Block \<lparr>rich_text = [\<lparr>plain_text = ''Details''\<rparr>]\<rparr>] =
     Inr [TextContent Heading_3 (Some ''Details'')]"
  by (simp add: list_flatten_def single_flatten_def list_callback_def single_callback_def
      push_defs)

text \<open>
  C5. A code block gives, in both views and whatever the array holds, one code
  content whose language is the block's language; a listing of code blocks gives
  their languages in order.
\<close>

theorem code_language_round_trip:
  "(\<exists>c. list_callback (CodeBlock body) cs = (None, cs @ [c]) \<and>
        single_callback (CodeBlock body) cs = (None, cs @ [c]) \<and>
        content_type c = ''code'' \<and> content_language c = Some (language body)) \<and>
   (\<exists>cs'. list_flatten (map CodeBlock bodies) = Inr cs' \<and>
        single_flatten (map CodeBlock bodies) = Inr cs' \<and>
        map content_language cs' = map (\<lambda>body. Some (language body)) bodies)"
proof
  show "\<exists>c. list_callback (CodeBlock body) cs = (None, cs @ [c]) \<and>
        single_callback (CodeBlock body) cs = (None, cs @ [c]) \<and>
        content_type c = ''code'' \<and> content_language c = Some (language body)"
    by (simp add: list_callback_def single_callback_def push_defs)
  show "\<exists>cs'. list_flatten (map CodeBlock bodies) = Inr cs' \<and>
        single_flatten (map CodeBlock bodies) = Inr cs' \<and>
        map content_language cs' = map (\<lambda>body. Some (language body)) bodies"
    by (simp add: list_flatten_def single_flatten_def forEach_list_code forEach_single_code
        comp_def)
qed

text \<open>C7. An empty listing gives an empty content sequence, in both views.\<close>

theorem flatten_empty: "list_flatten [] = Inr [] \<and> single_flatten [] = Inr []"
  by (simp add: list_flatten_def single_flatten_def)

text \<open>
  C9. The list view's flattener never throws. It does: for a listing of a
  paragraph and a quote block, \<^verbatim>\<open>getPostContents\<close> throws a \<open>TypeError\<close>,
  for whatever post it is asked.
\<close>

theorem getPostContents_throws:
  "getPostContents
     \<lparr>databases_query = Inr [],
      blocks_children_list =
        (\<lambda>i. Inr [ParagraphBlock \<lparr>rich_text = [\<lparr>plain_text = ''Intro''\<rparr>]\<rparr>,
                  QuoteBlock \<lparr>rich_text = [\<lparr>plain_text = ''So it goes''\<rparr>]\<rparr>])\<rparr> p
   = Inl TypeError"
  by (simp add: getPostContents_def list_flatten_def list_callback_def seq_def push_defs)

section \<open>Field extraction and the posts\<close>

lemma getTitle_missing: "title_missing (properties page ''Name'') \<Longrightarrow> getTitle page = Inr None"
  by (cases "properties page ''Name''" rule: title_missing.cases) (simp_all add: getTitle_def)

lemma getSlug_missing: "slug_missing (properties page ''Slug'') \<Longrightarrow> getSlug page = Inr None"
  by (cases "properties page ''Slug''" rule: slug_missing.cases) (simp_all add: getSlug_def)

text \<open>The single-post view on a full page, once both requests have been answered.\<close>

lemma getStaticProps_single_full:
  assumes "databases_query client = Inr (FullPage page # rest)"
    and "blocks_children_list client (Some (id_page page)) = Inr blocks"
    and "getTitle page = Inr t" and "getSlug page = Inr s"
    and "single_flatten blocks = Inr cs"
  shows "getStaticProps_single client =
     Inr \<lparr>post_prop = Some \<lparr>id_post = id_page page, title = t, slug = s,
       createdTs = Some (created_time page), lastEditedTs = Some (last_edited_time page),
       contents = cs\<rparr>\<rparr>"
  using assms by (simp add: getStaticProps_single_def first_result_def)

lemma getStaticProps_single_title:
  assumes "databases_query client = Inr (FullPage page # rest)"
    and "getStaticProps_single client = Inr \<lparr>post_prop = Some q\<rparr>"
  shows "getTitle page = Inr (title q)"
  using assms
  by (auto simp: getStaticProps_single_def first_result_def split: sum.splits)

text \<open>
  C4. Title extraction returns the plain text of the first segment of the
  \<^verbatim>\<open>Name\<close> property when the property is there, is a title and has a
  segment; it returns null, without an exception, when the property is absent, has
  another type or has no segment. The title of the post that the single-post view
  builds is the result of the same extraction on the first page.
\<close>

theorem getTitle_first_segment:
  "(properties page ''Name'' = Some (TitleProperty (seg # segs)) \<longrightarrow>
      getTitle page = Inr (Some (plain_text seg))) \<and>
   (properties page ''Name'' = None \<longrightarrow> getTitle page = Inr None) \<and>
   (properties page ''Name'' = Some p \<and> property_type p \<noteq> ''title'' \<longrightarrow>
      getTitle page = Inr None) \<and>
   (properties page ''Name'' = Some (TitleProperty []) \<longrightarrow> getTitle page = Inr None) \<and>
   (databases_query client = Inr (FullPage page # rest) \<and>
    getStaticProps_single client = Inr \<lparr>post_prop = Some q\<rparr> \<longrightarrow>
      getTitle page = Inr (title q))"
proof -
  have "databases_query client = Inr (FullPage page # rest) \<and>
    getStaticProps_single client = Inr \<lparr>post_prop = Some q\<rparr> \<longrightarrow>
      getTitle page = Inr (title q)"
    by (blast intro: getStaticProps_single_title)
  moreover have "properties page ''Name'' = Some (TitleProperty (seg # segs)) \<longrightarrow>
      getTitle page = Inr (Some (plain_text seg))"
    by (simp add: getTitle_def)
  moreover have "properties page ''Name'' = None \<longrightarrow> getTitle page = Inr None"
    by (simp add: getTitle_def)
  moreover have "properties page ''Name'' = Some p \<and> property_type p \<noteq> ''title'' \<longrightarrow>
      getTitle page = Inr None"
    by (simp add: getTitle_def)
  moreover have "properties page ''Name'' = Some (TitleProperty []) \<longrightarrow>
      getTitle page = Inr None"
    by (simp add: getTitle_def)
  ultimately show ?thesis
    by blast
qed

text \<open>
  The four cases on sample pages, and the single-post view on the sample client,
  whose first page is titled.
\<close>

theorem getTitle_first_segment_witness:
  "getTitle sample_titled = Inr (Some ''Hello'') \<and>
   getTitle (sample_titled\<lparr>properties := Map.empty\<rparr>) = Inr None \<and>
   getTitle (sample_titled\<lparr>properties := [''Name'' \<mapsto> RichTextProperty [\<lparr>plain_text = ''Hello''\<rparr>]]\<rparr>)
     = Inr None \<and>
   getTitle sample_untitled = Inr None \<and>
   (\<exists>q. getStaticProps_single sample_client = Inr \<lparr>post_prop = Some q\<rparr> \<and>
        title q = Some ''Hello'')"
proof -
  let ?seg = "\<lparr>plain_text = ''Hello''\<rparr>"
  let ?rest = "[\<lparr>plain_text = '' world''\<rparr>]"
  let ?mistyped = "RichTextProperty [\<lparr>plain_text = ''Hello''\<rparr>]"
  let ?q = "\<lparr>id_post = ''p1'', title = Some ''Hello'', slug = Some ''hello'',
      createdTs = Some ''2023-01-01T00:00:00.000Z'',
      lastEditedTs = Some ''2023-01-02T00:00:00.000Z'',
      contents = [TextContent Paragraph (Some ''Intro''),
                  CodeContent (Some ''x = 1'') (Some ''python'')]\<rparr>"
  have present: "properties sample_titled ''Name'' = Some (TitleProperty (?seg # ?rest))"
    by (simp add: sample_titled_def)
  have absent: "properties (sample_titled\<lparr>properties := Map.empty\<rparr>) ''Name'' = None"
    by simp
  have mistyped:
    "properties (sample_titled\<lparr>properties := [''Name'' \<mapsto> ?mistyped]\<rparr>) ''Name'' = Some ?mistyped
     \<and> property_type ?mistyped \<noteq> ''title''"
    by simp
  have empty: "properties sample_untitled ''Name'' = Some (TitleProperty [])"
    by (simp add: sample_untitled_def)
  have query: "databases_query sample_client =
      Inr (FullPage sample_titled # [PartialPage ''p0'', FullPage sample_untitled])"
    by (simp add: sample_client_def)
  have single: "getStaticProps_single sample_client = Inr \<lparr>post_prop = Some ?q\<rparr>"
    by (simp add: getStaticProps_single_def first_result_def getTitle_def getSlug_def
        sample_client_def sample_titled_def sample_blocks_1_def single_flatten_def
        single_callback_def push_defs)
  have 1: "getTitle sample_titled = Inr (Some ''Hello'')"
    using getTitle_first_segment [of sample_titled ?seg ?rest] present single query
    by simp
  have 2: "getTitle (sample_titled\<lparr>properties := Map.empty\<rparr>) = Inr None"
    using getTitle_first_segment [of "sample_titled\<lparr>properties := Map.empty\<rparr>"] absent
    by blast
  have 3: "getTitle (sample_titled\<lparr>properties := [''Name'' \<mapsto> ?mistyped]\<rparr>) = Inr None"
    using getTitle_first_segment
      [of "sample_titled\<lparr>properties := [''Name'' \<mapsto> ?mistyped]\<rparr>" _ _ ?mistyped] mistyped
    by blast
  have 4: "getTitle sample_untitled = Inr None"
    using getTitle_first_segment [of sample_untitled] empty by blast
  have 5: "getTitle sample_titled = Inr (title ?q)"
    using getTitle_first_segment [of sample_titled _ _ _ sample_client _ ?q] query single
    by blast
  from 1 2 3 4 5 single show ?thesis
    by simp
qed

text \<open>
  For a page whose \<^verbatim>\<open>Name\<close> and \<^verbatim>\<open>Slug\<close> are each absent, of
  another type or without a segment, both extractions return null without an
  exception; the list view's \<^verbatim>\<open>getPosts\<close> adds a post with null title and
  slug; and the single-post view, once its two requests are answered with blocks
  shaped as the service sends them, returns the post with null title and slug and
  the flattened blocks.
\<close>

lemma missing_title_and_slug_give_null:
  assumes "title_missing (properties page ''Name'')"
    and "slug_missing (properties page ''Slug'')"
  shows "getTitle page = Inr None \<and> getSlug page = Inr None \<and>
    getPosts_page (FullPage page) ps =
      (None, ps @ [\<lparr>id_post = id_page page, title = None, slug = None,
         createdTs = Some (created_time page), lastEditedTs = Some (last_edited_time page),
         contents = []\<rparr>]) \<and>
    (databases_query client = Inr (FullPage page # rest) \<and>
     blocks_children_list client (Some (id_page page)) = Inr blocks \<and>
     list_all api_shaped blocks \<longrightarrow>
       getStaticProps_single client =
         Inr \<lparr>post_prop = Some \<lparr>id_post = id_page page, title = None, slug = None,
           createdTs = Some (created_time page), lastEditedTs = Some (last_edited_time page),
           contents = List.map_filter content_of blocks\<rparr>\<rparr>)"
proof -
  have t: "getTitle page = Inr None"
    using assms(1) by (rule getTitle_missing)
  have s: "getSlug page = Inr None"
    using assms(2) by (rule getSlug_missing)
  have "getPosts_page (FullPage page) ps =
      (None, ps @ [\<lparr>id_post = id_page page, title = None, slug = None,
         createdTs = Some (created_time page), lastEditedTs = Some (last_edited_time page),
         contents = []\<rparr>])"
    by (simp add: getPosts_page_def t s)
  moreover have "getStaticProps_single client =
         Inr \<lparr>post_prop = Some \<lparr>id_post = id_page page, title = None, slug = None,
           createdTs = Some (created_time page), lastEditedTs = Some (last_edited_time page),
           contents = List.map_filter content_of blocks\<rparr>\<rparr>"
    if "databases_query client = Inr (FullPage page # rest)"
      and "blocks_children_list client (Some (id_page page)) = Inr blocks"
      and "list_all api_shaped blocks"
    using that t s by (simp add: getStaticProps_single_full single_flatten_order)
  ultimately show ?thesis
    using t s by blast
qed

text \<open>
  On the sample page with an empty \<^verbatim>\<open>Name\<close> and a checkbox under
  \<^verbatim>\<open>Slug\<close>.
\<close>

lemma missing_title_and_slug_give_null_sample:
  "title_missing (properties sample_untitled ''Name'') \<and>
   slug_missing (properties sample_untitled ''Slug'') \<and>
   getTitle sample_untitled = Inr None \<and> getSlug sample_untitled = Inr None \<and>
   getPosts_page (FullPage sample_untitled) [] =
     (None, [\<lparr>id_post = ''p2'', title = None, slug = None,
        createdTs = Some ''2023-02-01T00:00:00.000Z'',
        lastEditedTs = Some ''2023-02-02T00:00:00.000Z'', contents = []\<rparr>]) \<and>
   getStaticProps_single sample_client_untitled =
     Inr \<lparr>post_prop = Some \<lparr>id_post = ''p2'', title = None, slug = None,
        createdTs = Some ''2023-02-01T00:00:00.000Z'',
        lastEditedTs = Some ''2023-02-02T00:00:00.000Z'',
        contents = [TextContent Heading_2 (Some ''Chapter''),
                    TextContent Quote (Some ''So it goes''),
                    CodeContent None (Some ''typescript'')]\<rparr>\<rparr>"
proof -
  have name: "title_missing (properties sample_untitled ''Name'')"
    by (simp add: sample_untitled_def)
  have slug: "slug_missing (properties sample_untitled ''Slug'')"
    by (simp add: sample_untitled_def)
  have requests: "databases_query sample_client_untitled = Inr (FullPage sample_untitled # []) \<and>
      blocks_children_list sample_client_untitled (Some (id_page sample_untitled)) =
        Inr sample_blocks_3 \<and>
      list_all api_shaped sample_blocks_3"
    by (simp add: sample_client_untitled_def sample_untitled_def sample_blocks_3_def
        switch_tags_def)
  have fields: "id_page sample_untitled = ''p2'' \<and>
      created_time sample_untitled = ''2023-02-01T00:00:00.000Z'' \<and>
      last_edited_time sample_untitled = ''2023-02-02T00:00:00.000Z''"
    by (simp add: sample_untitled_def)
  have records: "List.map_filter content_of sample_blocks_3 =
      [TextContent Heading_2 (Some ''Chapter''), TextContent Quote (Some ''So it goes''),
       CodeContent None (Some ''typescript'')]"
    by (simp add: sample_blocks_3_def)
  show ?thesis
    using missing_title_and_slug_give_null
      [OF name slug, of "[]" sample_client_untitled "[]" sample_blocks_3]
      name slug requests fields records
    by simp
qed

section \<open>The single-post view without a page\<close>

text \<open>
  The single-post view never throws while it renders: its component reads only
  the post it is given.
\<close>

lemma Home_single_returns: "\<exists>m. Home_single p = Inr m"
  by (cases p) (simp_all add: Home_single_def)

text \<open>
  The list view's component throws for every array of posts, the empty one
  included.
\<close>

lemma Home_list_throws: "Home_list (Some ps) = Inl ReferenceError"
  by (simp add: Home_list_def)

text \<open>
  C6. For a page whose \<^verbatim>\<open>Name\<close> and \<^verbatim>\<open>Slug\<close> are each absent, of
  another type or without a segment, building and rendering the post completes
  without an exception, the post having a null title and a null slug. The
  single-post view does so: for the sample page with a title without segments and
  a checkbox under \<^verbatim>\<open>Slug\<close> it builds the post with null title and slug and
  renders a heading without text. The list view does not. With the same page and
  a listing of a heading_3, a partial block and a paragraph it builds the post
  with null title and slug, and its component then throws a \<open>ReferenceError\<close>;
  with the listing that starts with a heading_2 block, building the post already
  throws the \<open>TypeError\<close> of C9.
\<close>

theorem untitled_page_list_view_throws:
  "getStaticProps_list sample_client_plain =
     Inr \<lparr>posts = Some [\<lparr>id_post = ''p2'', title = None, slug = None,
        createdTs = Some ''2023-02-01T00:00:00.000Z'',
        lastEditedTs = Some ''2023-02-02T00:00:00.000Z'',
        contents = [TextContent Paragraph None]\<rparr>], revalidate = 60\<rparr> \<and>
   Home_list (Some [\<lparr>id_post = ''p2'', title = None, slug = None,
        createdTs = Some ''2023-02-01T00:00:00.000Z'',
        lastEditedTs = Some ''2023-02-02T00:00:00.000Z'',
        contents = [TextContent Paragraph None]\<rparr>]) = Inl ReferenceError \<and>
   getStaticProps_list sample_client_untitled = Inl TypeError \<and>
   getStaticProps_single sample_client_untitled =
     Inr \<lparr>post_prop = Some \<lparr>id_post = ''p2'', title = None, slug = None,
        createdTs = Some ''2023-02-01T00:00:00.000Z'',
        lastEditedTs = Some ''2023-02-02T00:00:00.000Z'',
        contents = [TextContent Heading_2 (Some ''Chapter''),
                    TextContent Quote (Some ''So it goes''),
                    CodeContent None (Some ''typescript'')]\<rparr>\<rparr> \<and>
   Home_single (Some \<lparr>id_post = ''p2'', title = None, slug = None,
        createdTs = Some ''2023-02-01T00:00:00.000Z'',
        lastEditedTs = Some ''2023-02-02T00:00:00.000Z'',
        contents = [TextContent Heading_2 (Some ''Chapter''),
                    TextContent Quote (Some ''So it goes''),
                    CodeContent None (Some ''typescript'')]\<rparr>) =
     Inr (Some (Fragment
       [Element ''div'' ''wrapper'' [Element ''div'' ''post'' [Element ''h1'' ''title'' []]]]))"
proof -
  let ?p = "\<lparr>id_post = ''p2'', title = None, slug = None,
      createdTs = Some ''2023-02-01T00:00:00.000Z'',
      lastEditedTs = Some ''2023-02-02T00:00:00.000Z'', contents = []\<rparr>"
  have plain_posts: "getPosts sample_client_plain = Inr [?p]"
    by (simp add: getPosts_def getPosts_page_def getTitle_def getSlug_def
        sample_client_plain_def sample_untitled_def)
  have plain_contents:
    "getPostContents sample_client_plain ?p = Inr [TextContent Paragraph None]"
    by (simp add: getPostContents_def sample_client_plain_def sample_blocks_2_def
        list_flatten_def list_callback_def push_defs)
  have plain: "getStaticProps_list sample_client_plain =
      Inr \<lparr>posts = Some [?p\<lparr>contents := [TextContent Paragraph None]\<rparr>],
        revalidate = 60\<rparr>"
    by (simp add: getStaticProps_list_def plain_posts plain_contents)
  have untitled_posts: "getPosts sample_client_untitled = Inr [?p]"
    by (simp add: getPosts_def getPosts_page_def getTitle_def getSlug_def
        sample_client_untitled_def sample_untitled_def)
  have untitled_contents: "getPostContents sample_client_untitled ?p = Inl TypeError"
    by (simp add: getPostContents_def sample_client_untitled_def sample_blocks_3_def
        list_flatten_def list_callback_def seq_def push_defs)
  have untitled: "getStaticProps_list sample_client_untitled = Inl TypeError"
    by (simp add: getStaticProps_list_def untitled_posts untitled_contents)
  have single: "getStaticProps_single sample_client_untitled =
     Inr \<lparr>post_prop = Some (?p\<lparr>contents := [TextContent Heading_2 (Some ''Chapter''),
        TextContent Quote (Some ''So it goes''), CodeContent None (Some ''typescript'')]\<rparr>)\<rparr>"
    by (simp add: getStaticProps_single_def first_result_def getTitle_def getSlug_def
        sample_client_untitled_def sample_untitled_def sample_blocks_3_def
        single_flatten_def single_callback_def push_defs)
  from plain untitled single show ?thesis
    by (simp add: Home_list_def Home_single_def)
qed

section \<open>The single-post view without a page\<close>

text \<open>
  What the single-post view returns when the listing it asks for first is
  answered: a null post for a query without a result, and for a first result
  without a \<^verbatim>\<open>properties\<close> key a post with that id, null title, slug and
  timestamps and no contents, whatever the listing holds.
\<close>

lemma getStaticProps_single_no_page:
  "(databases_query client = Inr [] \<and> blocks_children_list client None = Inr blocks \<longrightarrow>
      getStaticProps_single client = Inr \<lparr>post_prop = None\<rparr>) \<and>
   (databases_query client = Inr (PartialPage i # rest) \<and>
    blocks_children_list client (Some i) = Inr blocks \<longrightarrow>
      getStaticProps_single client =
        Inr \<lparr>post_prop = Some \<lparr>id_post = i, title = None, slug = None,
          createdTs = None, lastEditedTs = None, contents = []\<rparr>\<rparr>)"
  by (simp add: getStaticProps_single_def first_result_def)

text \<open>
  The listing is asked for before the result is looked at, without a block id
  when there is no result, and a rejection of that request ends the function
  before its guard for a missing page is reached.
\<close>

lemma getStaticProps_single_listing_rejected:
  "databases_query client = Inr results \<Longrightarrow>
   blocks_children_list client (map_option page_id (first_result results)) = Inl e \<Longrightarrow>
   getStaticProps_single client = Inl e"
  by (simp add: getStaticProps_single_def)

text \<open>
  C8. When the query returns no result, the single-post view returns the props
  with a null post. The guard that returns them comes after the request for the
  children listing, which is made without a block id: with a service that rejects
  such a request, \<^verbatim>\<open>getStaticProps\<close> ends with the rejection and the guard
  is never reached.
\<close>

theorem single_view_rejects_on_empty_result:
  "getStaticProps_single sample_client_strict = Inl APIResponseError \<and>
   databases_query sample_client_strict = Inr []"
  by (simp add: getStaticProps_single_def first_result_def sample_client_strict_def)

section \<open>The list view's static props\<close>

text \<open>
  \<^verbatim>\<open>Promise.all\<close> returns one value for each promise, so the index read in
  \<open>assign_contents\<close> stays within the list.
\<close>

lemma promise_all_length: "promise_all rs = Inr vs \<Longrightarrow> length vs = length rs"
proof (induction rs arbitrary: vs rule: promise_all.induct)
  case 1
  then show ?case by simp
next
  case (2 e rs)
  then show ?case by simp
next
  case (3 v rs)
  then show ?case by (cases "promise_all rs") auto
qed

lemma promise_all_map:
  "list_all (\<lambda>x. \<not> isl (f x)) xs \<Longrightarrow> promise_all (map f xs) = Inr (map (\<lambda>x. projr (f x)) xs)"
proof (induction xs)
  case Nil
  show ?case by simp
next
  case (Cons x xs)
  then show ?case by (cases "f x") simp_all
qed

lemma promise_all_Inr:
  "promise_all (map f xs) = Inr vs \<Longrightarrow> list_all (\<lambda>x. \<not> isl (f x)) xs"
proof (induction xs arbitrary: vs)
  case Nil
  show ?case by simp
next
  case (Cons x xs)
  then show ?case
    by (cases "f x"; cases "promise_all (map f xs)") simp_all
qed

lemma assign_contents_map:
  "assign_contents ps (length pre) (pre @ map g ps) = map (\<lambda>p. p\<lparr>contents := g p\<rparr>) ps"
proof (induction ps arbitrary: pre)
  case Nil
  show ?case by simp
next
  case (Cons p ps)
  have "assign_contents ps (Suc (length pre)) (pre @ g p # map g ps) =
        assign_contents ps (length (pre @ [g p])) ((pre @ [g p]) @ map g ps)"
    by simp
  also have "\<dots> = map (\<lambda>p. p\<lparr>contents := g p\<rparr>) ps"
    by (rule Cons.IH)
  finally show ?case by simp
qed

lemma getStaticProps_list_returns:
  assumes "getPosts client = Inr ps"
    and "list_all (\<lambda>p. \<not> isl (getPostContents client p)) ps"
  shows "getStaticProps_list client =
    Inr \<lparr>posts = Some (map (\<lambda>p. p\<lparr>contents := projr (getPostContents client p)\<rparr>) ps),
         revalidate = 60\<rparr>"
  using assms assign_contents_map [of ps "[]" "\<lambda>p. projr (getPostContents client p)"]
  by (simp add: getStaticProps_list_def promise_all_map)

text \<open>
  C10. When the posts are fetched and every contents request is answered and
  flattened, the list view returns as many posts as were fetched, and the post at
  each index is the fetched post at that index with \<^verbatim>\<open>contents\<close> set to the
  flattened blocks of that same post and every other field as it was. It returns
  in no other case.
\<close>

theorem list_view_pairing:
  "(getPosts client = Inr ps \<and> list_all (\<lambda>p. \<not> isl (getPostContents client p)) ps \<longrightarrow>
      (\<exists>qs. getStaticProps_list client = Inr \<lparr>posts = Some qs, revalidate = 60\<rparr> \<and>
         length qs = length ps \<and>
         (\<forall>i<length ps.
            getPostContents client (ps ! i) = Inr (contents (qs ! i)) \<and>
            qs ! i = (ps ! i)\<lparr>contents := contents (qs ! i)\<rparr>))) \<and>
   (getStaticProps_list client = Inr props \<longrightarrow>
      (\<exists>ps. getPosts client = Inr ps \<and>
         list_all (\<lambda>p. \<not> isl (getPostContents client p)) ps))"
proof (intro conjI impI)
  assume a: "getPosts client = Inr ps \<and> list_all (\<lambda>p. \<not> isl (getPostContents client p)) ps"
  let ?qs = "map (\<lambda>p. p\<lparr>contents := projr (getPostContents client p)\<rparr>) ps"
  have "getStaticProps_list client = Inr \<lparr>posts = Some ?qs, revalidate = 60\<rparr>"
    using a by (simp add: getStaticProps_list_returns)
  moreover have "length ?qs = length ps" by simp
  moreover have "getPostContents client (ps ! i) = Inr (contents (?qs ! i)) \<and>
      ?qs ! i = (ps ! i)\<lparr>contents := contents (?qs ! i)\<rparr>" if "i < length ps" for i
  proof -
    from a that have "\<not> isl (getPostContents client (ps ! i))"
      by (simp add: list_all_length)
    with that show ?thesis
      by (cases "getPostContents client (ps ! i)") simp_all
  qed
  ultimately show "\<exists>qs. getStaticProps_list client = Inr \<lparr>posts = Some qs, revalidate = 60\<rparr> \<and>
         length qs = length ps \<and>
         (\<forall>i<length ps.
            getPostContents client (ps ! i) = Inr (contents (qs ! i)) \<and>
            qs ! i = (ps ! i)\<lparr>contents := contents (qs ! i)\<rparr>)"
    by blast
next
  assume r: "getStaticProps_list client = Inr props"
  then obtain ps where ps: "getPosts client = Inr ps"
    by (cases "getPosts client") (simp_all add: getStaticProps_list_def)
  with r obtain vs where "promise_all (map (getPostContents client) ps) = Inr vs"
    by (cases "promise_all (map (getPostContents client) ps)")
      (simp_all add: getStaticProps_list_def)
  then have "list_all (\<lambda>p. \<not> isl (getPostContents client p)) ps"
    by (rule promise_all_Inr)
  with ps show "\<exists>ps. getPosts client = Inr ps \<and>
      list_all (\<lambda>p. \<not> isl (getPostContents client p)) ps"
    by blast
qed

text \<open>
  On the sample client: two full pages and a partial one, so two posts, each with
  the contents of its own listing.
\<close>

theorem list_view_pairing_witness:
  "\<exists>q1 q2. getStaticProps_list sample_client = Inr \<lparr>posts = Some [q1, q2], revalidate = 60\<rparr> \<and>
     q1 = \<lparr>id_post = ''p1'', title = Some ''Hello'', slug = Some ''hello'',
        createdTs = Some ''2023-01-01T00:00:00.000Z'',
        lastEditedTs = Some ''2023-01-02T00:00:00.000Z'',
        contents = [TextContent Paragraph (Some ''Intro''),
                    CodeContent (Some ''x = 1'') (Some ''python'')]\<rparr> \<and>
     q2 = \<lparr>id_post = ''p2'', title = None, slug = None,
        createdTs = Some ''2023-02-01T00:00:00.000Z'',
        lastEditedTs = Some ''2023-02-02T00:00:00.000Z'',
        contents = [TextContent Paragraph None]\<rparr> \<and>
     getPostContents sample_client q1 = Inr (contents q1) \<and>
     getPostContents sample_client q2 = Inr (contents q2)"
proof -
  let ?p1 = "\<lparr>id_post = ''p1'', title = Some ''Hello'', slug = Some ''hello'',
      createdTs = Some ''2023-01-01T00:00:00.000Z'',
      lastEditedTs = Some ''2023-01-02T00:00:00.000Z'', contents = []\<rparr>"
  let ?p2 = "\<lparr>id_post = ''p2'', title = None, slug = None,
      createdTs = Some ''2023-02-01T00:00:00.000Z'',
      lastEditedTs = Some ''2023-02-02T00:00:00.000Z'', contents = []\<rparr>"
  let ?c1 = "[TextContent Paragraph (Some ''Intro''),
      CodeContent (Some ''x = 1'') (Some ''python'')]"
  let ?c2 = "[TextContent Paragraph None]"
  have fetched: "getPosts sample_client = Inr [?p1, ?p2]"
    by (simp add: getPosts_def getPosts_page_def getTitle_def getSlug_def sample_client_def
        sample_titled_def sample_untitled_def)
  have c1: "getPostContents sample_client (?p1\<lparr>contents := cs\<rparr>) = Inr ?c1" for cs
    by (simp add: getPostContents_def sample_client_def sample_blocks_1_def list_flatten_def
        list_callback_def push_defs)
  have c2: "getPostContents sample_client (?p2\<lparr>contents := cs\<rparr>) = Inr ?c2" for cs
    by (simp add: getPostContents_def sample_client_def sample_blocks_2_def list_flatten_def
        list_callback_def push_defs)
  have all: "list_all (\<lambda>p. \<not> isl (getPostContents sample_client p)) [?p1, ?p2]"
    using c1 [of "[]"] c2 [of "[]"] by simp
  from list_view_pairing [of sample_client "[?p1, ?p2]"] fetched all
  obtain qs where qs: "getStaticProps_list sample_client = Inr \<lparr>posts = Some qs, revalidate = 60\<rparr>"
    and len: "length qs = 2"
    and at: "\<forall>i<2. getPostContents sample_client ([?p1, ?p2] ! i) = Inr (contents (qs ! i)) \<and>
            qs ! i = ([?p1, ?p2] ! i)\<lparr>contents := contents (qs ! i)\<rparr>"
    by auto
  from at have at0: "getPostContents sample_client ?p1 = Inr (contents (qs ! 0)) \<and>
      qs ! 0 = ?p1\<lparr>contents := contents (qs ! 0)\<rparr>"
    by (auto dest: spec [of _ 0])
  from at have at1: "getPostContents sample_client ?p2 = Inr (contents (qs ! 1)) \<and>
      qs ! 1 = ?p2\<lparr>contents := contents (qs ! 1)\<rparr>"
    by (auto dest: spec [of _ 1])
  from at0 c1 [of "[]"] have q0: "qs ! 0 = ?p1\<lparr>contents := ?c1\<rparr>"
    by simp
  from at1 c2 [of "[]"] have q1: "qs ! 1 = ?p2\<lparr>contents := ?c2\<rparr>"
    by simp
  from len obtain a b where ab: "qs = [a, b]"
    by (cases qs; cases "tl qs") auto
  with q0 q1 have "qs = [?p1\<lparr>contents := ?c1\<rparr>, ?p2\<lparr>contents := ?c2\<rparr>]"
    by simp
  with qs c1 [of ?c1] c2 [of ?c2] show ?thesis
    by simp
qed

end
